theory Spec2Isabelle
  imports Main
begin

section \<open>Strings of the host language\<close>

text \<open>
  Strings are lists of 8-bit characters. The functions below are the string methods the
  collector calls: \<open>startsWith\<close>, \<open>includes\<close>, \<open>trim\<close>, \<open>split\<close> with a
  string separator, and \<open>split\<close> with the two regular expressions of the source.
\<close>

definition startsWith :: "string \<Rightarrow> string \<Rightarrow> bool" where
  "startsWith s p = (take (length p) s = p)"

fun includesStr :: "string \<Rightarrow> string \<Rightarrow> bool" where
  "includesStr [] p = (p = [])"
| "includesStr (c # cs) p = (startsWith (c # cs) p \<or> includesStr cs p)"

definition toLowerChar :: "char \<Rightarrow> char" where
  "toLowerChar c =
     (case map_of (zip ''ABCDEFGHIJKLMNOPQRSTUVWXYZ'' ''abcdefghijklmnopqrstuvwxyz'') c of
        None \<Rightarrow> c | Some d \<Rightarrow> d)"

definition toLowerCase :: "string \<Rightarrow> string" where
  "toLowerCase s = map toLowerChar s"

text \<open>\<open>s.match(/favicon|apple-touch-icon/i)\<close>: a case-insensitive search for either word.\<close>

definition matchesFavicon :: "string \<Rightarrow> bool" where
  "matchesFavicon s =
     (includesStr (toLowerCase s) ''favicon'' \<or> includesStr (toLowerCase s) ''apple-touch-icon'')"

text \<open>Decimal rendering of a number inside a template literal.\<close>

fun digits :: "nat \<Rightarrow> string" where
  "digits n =
     (if n < 10 then [''0123456789'' ! n]
      else digits (n div 10) @ [''0123456789'' ! (n mod 10)])"

declare digits.simps [simp del]

section \<open>Data model\<close>

datatype ResourceType =
  stylesheet | script | image | favicon | video | audio | object | iframe | link | font
  | manifest

record Resource =
  type :: ResourceType
  url :: string

datatype js_error = Error string | TypeError string

subsection \<open>What the browser engine reports about a response\<close>

datatype frame = Frame (parentFrame: "frame option")

record http_request =
  resourceType :: string
  frame :: "frame option"

record http_response =
  request :: http_request
  response_url :: string
  headers :: "string \<rightharpoonup> string"
  ok :: bool
  status :: nat

section \<open>Classification of an observed response (network.ts)\<close>

definition mapResourceType :: "http_response \<Rightarrow> string \<Rightarrow> ResourceType option" where
  "mapResourceType response mainFrameUrl =
     (let req = request response;
          ty = resourceType req;
          u = response_url response
      in if startsWith u ''data:'' then None
         else
           let contentType = (case headers response ''content-type'' of
                                None \<Rightarrow> '''' | Some v \<Rightarrow> v)
           in if ty = ''stylesheet'' then Some stylesheet
              else if ty = ''script'' then Some script
              else if ty = ''image'' then
                (if matchesFavicon u then Some favicon else Some image)
              else if ty = ''media'' then
                (if startsWith contentType ''audio/'' then Some audio
                 else if startsWith contentType ''video/'' then Some video
                 else None)
              else if ty = ''font'' then Some font
              else if ty = ''manifest'' then Some manifest
              else if ty = ''document'' then
                (if startsWith contentType ''image/svg'' then Some image
                 else if (case frame req of None \<Rightarrow> False
                          | Some f \<Rightarrow> parentFrame f \<noteq> None) then Some iframe
                 else None)
              else if ty = ''other'' then
                (if includesStr contentType ''application/pdf''
                    \<or> includesStr contentType ''application/octet-stream'' then Some object
                 else None)
              else None)"

section \<open>The loaded document, as the queries see it\<close>

text \<open>
  An element is an HTML element of the loaded document: its tag, the tag of its parent
  element, and the attributes the collector reads. An attribute that is absent is
  \<open>None\<close>; one that is present holds the value its reflecting property returns
  (\<open>elem.src\<close>, \<open>elem.href\<close>, \<open>elem.srcset\<close>, \<open>elem.data\<close>). \<open>rel\<close> is the list of
  tokens of the \<open>rel\<close> attribute.
\<close>

record element =
  tagName :: string
  parentElement :: "string option"
  src :: "string option"
  srcset :: "string option"
  href :: "string option"
  rel :: "string list"
  data :: "string option"

datatype css_rule =
  CSSImportRule string
  | CSSStyleRule string string
  | CSSFontFaceRule string
  | CSSOtherRule

text \<open>
  \<open>CSSImportRule h\<close> has \<open>rule.href = h\<close>; \<open>CSSStyleRule b c\<close> has
  \<open>rule.style.backgroundImage = b\<close> and \<open>rule.style.content = c\<close>;
  \<open>CSSFontFaceRule s\<close> has \<open>rule.style.src = s\<close>. A style sheet whose \<open>cssRules\<close>
  is \<open>None\<close> is one whose rules the page may not read: reading them throws.
\<close>

record styleSheet =
  sheet_href :: "string option"
  cssRules :: "css_rule list option"

record page =
  page_url :: string
  elements :: "element list"
  styleSheets :: "styleSheet list"

section \<open>The collector of network.ts\<close>

record collector =
  seen :: "string set"
  queue :: "Resource list"

text \<open>The listener registered with \<open>page.on("response", ...)\<close>.\<close>

definition onResponse :: "string \<Rightarrow> collector \<Rightarrow> http_response \<Rightarrow> collector" where
  "onResponse mainFrameUrl st response =
     (case mapResourceType response mainFrameUrl of
        None \<Rightarrow> st
      | Some resType \<Rightarrow>
          let resourceUrl = response_url response
          in if resourceUrl \<in> seen st then st
             else \<lparr>seen = insert resourceUrl (seen st),
                   queue = queue st @ [\<lparr>type = resType, url = resourceUrl\<rparr>]\<rparr>)"

text \<open>
  The check after \<open>page.goto\<close>, the same lines in both collectors: \<open>None\<close> when
  navigation succeeded, the error that is thrown otherwise.
\<close>

definition navigationError :: "string \<Rightarrow> http_response option \<Rightarrow> js_error option" where
  "navigationError target response =
     (case response of
        None \<Rightarrow> Some (Error (''Failed to navigate to '' @ target @ []))
      | Some r \<Rightarrow>
          if ok r then None
          else Some (Error (''Failed to navigate to '' @ target
                            @ (''. HTTP '' @ digits (status r)))))"

text \<open>The query \<open>a[href]\<close> and its mapping to link resources.\<close>

definition anchorLinks :: "page \<Rightarrow> Resource list" where
  "anchorLinks p =
     map (\<lambda>el. \<lparr>type = link, url = (case href el of None \<Rightarrow> [] | Some h \<Rightarrow> h)\<rparr>)
       (filter (\<lambda>el. tagName el = ''a'')
          (filter (\<lambda>el. tagName el = ''a'' \<and> href el \<noteq> None) (elements p)))"

text \<open>The loop over the links: a link is yielded unless its url has been seen.\<close>

fun yieldLinks :: "string set \<Rightarrow> Resource list \<Rightarrow> Resource list" where
  "yieldLinks sn [] = []"
| "yieldLinks sn (l # ls) =
     (if url l \<notin> sn then l # yieldLinks (insert (url l) sn) ls else yieldLinks sn ls)"

text \<open>
  What the browser engine does during one run. \<open>launch_error\<close>, \<open>newPage_error\<close> and
  \<open>close_error\<close> are the errors thrown by \<open>puppeteer.launch\<close>, \<open>browser.newPage\<close>
  and \<open>browser.close\<close>, if any. \<open>goto_result\<close> is what \<open>page.goto\<close> does: it throws,
  or returns a response or null. \<open>responses\<close> are the responses the listener sees, in
  order of arrival, until the queue has been yielded; \<open>late_responses\<close> are those that
  arrive afterwards, while the links are collected. \<open>links_error\<close> is the error thrown
  by the query \<open>page.$$eval("a[href]", ...)\<close>, if any.
\<close>

record run_env =
  launch_error :: "js_error option"
  newPage_error :: "js_error option"
  goto_result :: "js_error + http_response option"
  responses :: "http_response list"
  late_responses :: "http_response list"
  links_error :: "js_error option"
  document :: page
  close_error :: "js_error option"

record Options =
  links :: "bool option"

text \<open>
  The \<open>try\<close> block: the resources it yields when the consumer takes all of them, and
  the error it ends with, if any.
\<close>

definition network_try :: "string \<Rightarrow> Options \<Rightarrow> run_env \<Rightarrow> Resource list \<times> js_error option" where
  "network_try target options env =
     (case newPage_error env of
        Some e \<Rightarrow> ([], Some e)
      | None \<Rightarrow>
         (case goto_result env of
            Inl e \<Rightarrow> ([], Some e)
          | Inr response \<Rightarrow>
             (case navigationError target response of
                Some e \<Rightarrow> ([], Some e)
              | None \<Rightarrow>
                 let st = foldl (onResponse target) \<lparr>seen = {}, queue = []\<rparr> (responses env)
                 in if links options = Some True then
                      (case links_error env of
                         Some e \<Rightarrow> (queue st, Some e)
                       | None \<Rightarrow>
                           let st' = foldl (onResponse target) st (late_responses env)
                           in (queue st @ yieldLinks (seen st') (anchorLinks (document env)),
                               None))
                    else (queue st, None))))"

text \<open>
  A run of the generator, as its consumer observes it: the resources yielded, the closing
  of the browser, and how the generator ends. The consumer either takes every resource
  (\<open>None\<close>) or stops after \<open>n\<close> resources by calling \<open>return()\<close> (\<open>Some n\<close>); a
  generator that is never resumed does not run at all.
\<close>

datatype event = Yield Resource | Close | Return | Throw js_error

definition run_generator ::
  "run_env \<Rightarrow> nat option \<Rightarrow> Resource list \<times> js_error option \<Rightarrow> event list" where
  "run_generator env consumer body =
     (if consumer = Some 0 then []
      else case launch_error env of
        Some e \<Rightarrow> [Throw e]
      | None \<Rightarrow>
          let (yielded, caughtError) =
                (case consumer of
                   None \<Rightarrow> body
                 | Some n \<Rightarrow> if n \<le> length (fst body) then (take n (fst body), None)
                             else body)
          in map Yield yielded @ [Close]
             @ (case close_error env of
                  Some e \<Rightarrow> [Throw e]
                | None \<Rightarrow> (case caughtError of Some e \<Rightarrow> [Throw e] | None \<Rightarrow> [Return])))"

definition getAllSubResources_network ::
  "string \<Rightarrow> Options \<Rightarrow> run_env \<Rightarrow> nat option \<Rightarrow> event list" where
  "getAllSubResources_network target options env consumer =
     run_generator env consumer (network_try target options env)"

definition emitted :: "event list \<Rightarrow> Resource list" where
  "emitted evs = concat (map (\<lambda>ev. case ev of Yield r \<Rightarrow> [r] | _ \<Rightarrow> []) evs)"


section \<open>More string methods: trim, split and the url(...) pattern\<close>

text \<open>
  \<open>isSpace\<close> holds for the 8-bit characters that \<open>trim\<close> strips and \<open>\s\<close> matches: tab,
  line feed, vertical tab, form feed, carriage return, space and no-break space.
\<close>

definition isSpace :: "char \<Rightarrow> bool" where
  "isSpace c = (c \<in> set [CHR 0x09, CHR 0x0A, CHR 0x0B, CHR 0x0C, CHR 0x0D, CHR 0x20, CHR 0xA0])"

definition trim :: "string \<Rightarrow> string" where
  "trim s = rev (dropWhile isSpace (rev (dropWhile isSpace s)))"

text \<open>\<open>s.split(",")\<close> and the like: every occurrence of the character separates.\<close>

fun splitChar :: "char \<Rightarrow> string \<Rightarrow> string list" where
  "splitChar sep [] = [[]]"
| "splitChar sep (c # cs) =
     (if c = sep then [] # splitChar sep cs
      else (case splitChar sep cs of [] \<Rightarrow> [[c]] | p # ps \<Rightarrow> (c # p) # ps))"

text \<open>
  \<open>s.split(/,\s+/)\<close>: a comma separates when at least one space character follows it,
  and the separator takes the comma and all the space characters after it.
\<close>

function splitCommaSpace :: "string \<Rightarrow> string list" where
  "splitCommaSpace [] = [[]]"
| "splitCommaSpace (c # cs) =
     (if c = CHR '','' \<and> cs \<noteq> [] \<and> isSpace (hd cs)
      then [] # splitCommaSpace (dropWhile isSpace cs)
      else (case splitCommaSpace cs of [] \<Rightarrow> [[c]] | p # ps \<Rightarrow> (c # p) # ps))"
  by pat_completeness auto
termination
  by (relation "measure length") (auto simp: less_Suc_eq_le length_dropWhile_le)

text \<open>\<open>s.split(/\s+/)\<close>: every maximal run of space characters separates.\<close>

function splitSpace :: "string \<Rightarrow> string list" where
  "splitSpace [] = [[]]"
| "splitSpace (c # cs) =
     (if isSpace c then [] # splitSpace (dropWhile isSpace cs)
      else (case splitSpace cs of [] \<Rightarrow> [[c]] | p # ps \<Rightarrow> (c # p) # ps))"
  by pat_completeness auto
termination
  by (relation "measure length") (auto simp: less_Suc_eq_le length_dropWhile_le)

text \<open>
  \<open>s.match(/url\("([^)]+)"\)/)\<close>: the first capture group of the leftmost match, if
  there is one. After \<open>url("\<close> the pattern needs characters other than \<open>)\<close>, then a
  double quote, then \<open>)\<close>: so the characters up to the next \<open>)\<close> must end with a double
  quote and have a character before it.
\<close>

definition urlOpen :: string where
  "urlOpen = ''url('' @ [CHR 0x22]"

fun matchUrl :: "string \<Rightarrow> string option" where
  "matchUrl [] = None"
| "matchUrl (c # cs) =
     (if startsWith (c # cs) urlOpen then
        let rest = drop (length urlOpen) (c # cs);
            run = takeWhile (\<lambda>x. x \<noteq> CHR '')'') rest
        in if dropWhile (\<lambda>x. x \<noteq> CHR '')'') rest \<noteq> [] \<and> 2 \<le> length run
              \<and> last run = CHR 0x22
           then Some (butlast run)
           else matchUrl cs
      else matchUrl cs)"

section \<open>The collector of index.ts\<close>

text \<open>
  The URL parser is the browser's. \<open>U input base\<close> is \<open>new URL(input, base)\<close>
  (\<open>new URL(input)\<close> when \<open>base\<close> is \<open>None\<close>): \<open>None\<close> when the constructor throws.
\<close>

record URL =
  URL_href :: string
  protocol :: string

type_synonym url_parser = "string \<Rightarrow> string option \<Rightarrow> URL option"

definition resolveHref :: "url_parser \<Rightarrow> string \<Rightarrow> string \<Rightarrow> js_error + string" where
  "resolveHref U input base =
     (case U input (Some base) of
        None \<Rightarrow> Inl (TypeError ''Invalid URL'')
      | Some parsed \<Rightarrow> Inr (URL_href parsed))"

text \<open>The value of a reflecting property: the empty string when the attribute is absent.\<close>

definition reflected :: "string option \<Rightarrow> string" where
  "reflected a = (case a of None \<Rightarrow> [] | Some v \<Rightarrow> v)"

text \<open>Loops whose body may throw: the first exception ends the loop.\<close>

fun mapE :: "('a \<Rightarrow> js_error + 'b) \<Rightarrow> 'a list \<Rightarrow> js_error + 'b list" where
  "mapE f [] = Inr []"
| "mapE f (x # xs) =
     (case f x of
        Inl e \<Rightarrow> Inl e
      | Inr y \<Rightarrow> (case mapE f xs of Inl e \<Rightarrow> Inl e | Inr ys \<Rightarrow> Inr (y # ys)))"

fun concatMapE :: "('a \<Rightarrow> js_error + 'b list) \<Rightarrow> 'a list \<Rightarrow> js_error + 'b list" where
  "concatMapE f [] = Inr []"
| "concatMapE f (x # xs) =
     (case f x of
        Inl e \<Rightarrow> Inl e
      | Inr ys \<Rightarrow> (case concatMapE f xs of Inl e \<Rightarrow> Inl e | Inr zs \<Rightarrow> Inr (ys @ zs)))"

definition asResources :: "ResourceType \<Rightarrow> js_error + string list \<Rightarrow> js_error + Resource list" where
  "asResources t r =
     (case r of Inl e \<Rightarrow> Inl e | Inr us \<Rightarrow> Inr (map (\<lambda>u. \<lparr>type = t, url = u\<rparr>) us))"

text \<open>
  The loop \<open>for (const stylesheet of document.styleSheets)\<close> of the three passes that read
  style sheets: a sheet whose rules cannot be read is passed over, the others give their
  base URL and their rules to the body.
\<close>

definition baseURL :: "string \<Rightarrow> styleSheet \<Rightarrow> string" where
  "baseURL pageURL sheet =
     (case sheet_href sheet of
        None \<Rightarrow> pageURL
      | Some h \<Rightarrow> if h = [] then pageURL else h)"

definition forEachRule ::
  "(string \<Rightarrow> css_rule \<Rightarrow> js_error + string list) \<Rightarrow> string \<Rightarrow> styleSheet list
     \<Rightarrow> js_error + string list" where
  "forEachRule body pageURL sheets =
     concatMapE (\<lambda>sheet.
        case cssRules sheet of
          None \<Rightarrow> Inr []
        | Some rules \<Rightarrow> concatMapE (body (baseURL pageURL sheet)) rules) sheets"

text \<open>
  The selector \<open>link[rel~="token"]\<close>: in an HTML document the browser compares the
  tokens of the \<open>rel\<close> attribute with the token of the selector without regard to
  ASCII case.
\<close>

definition relMatches :: "string \<Rightarrow> element \<Rightarrow> bool" where
  "relMatches token el =
     (tagName el = ''link'' \<and> toLowerCase token \<in> set (map toLowerCase (rel el)))"

definition getStyleSheets :: "page \<Rightarrow> js_error + Resource list" where
  "getStyleSheets p =
     Inr (map (\<lambda>elem. \<lparr>type = stylesheet, url = reflected (href elem)\<rparr>)
            (filter (relMatches ''stylesheet'') (elements p)))"

definition importedRule :: "url_parser \<Rightarrow> string \<Rightarrow> css_rule \<Rightarrow> js_error + string list" where
  "importedRule U base rule =
     (case rule of
        CSSImportRule h \<Rightarrow>
          (case resolveHref U h base of Inl e \<Rightarrow> Inl e | Inr u \<Rightarrow> Inr [u])
      | _ \<Rightarrow> Inr [])"

definition getImportedStyleSheets :: "url_parser \<Rightarrow> page \<Rightarrow> js_error + Resource list" where
  "getImportedStyleSheets U p =
     asResources stylesheet (forEachRule (importedRule U) (page_url p) (styleSheets p))"

definition getScripts :: "page \<Rightarrow> js_error + Resource list" where
  "getScripts p =
     Inr (map (\<lambda>elem. \<lparr>type = script, url = reflected (src elem)\<rparr>)
            (filter (\<lambda>el. tagName el = ''script'' \<and> src el \<noteq> None) (elements p)))"


subsection \<open>getMedia\<close>

text \<open>The query \<open>img[src], video > source[src], video[src], audio[src]\<close>.\<close>

definition mediaSelector :: "element \<Rightarrow> bool" where
  "mediaSelector el =
     (src el \<noteq> None \<and>
      (tagName el = ''img''
       \<or> (tagName el = ''source'' \<and> parentElement el = Some ''video'')
       \<or> tagName el = ''video''
       \<or> tagName el = ''audio''))"

definition mediaSource :: "element \<Rightarrow> js_error + Resource" where
  "mediaSource elem =
     (if tagName elem = ''img'' then Inr \<lparr>type = image, url = reflected (src elem)\<rparr>
      else if tagName elem = ''video'' then Inr \<lparr>type = video, url = reflected (src elem)\<rparr>
      else if tagName elem = ''source'' then
        (if parentElement elem = Some ''video''
         then Inr \<lparr>type = video, url = reflected (src elem)\<rparr>
         else Inr \<lparr>type = audio, url = reflected (src elem)\<rparr>)
      else Inl (Error ''Reached unreachable code.''))"

definition mediaSources :: "page \<Rightarrow> js_error + Resource list" where
  "mediaSources p = mapE mediaSource (filter mediaSelector (elements p))"

text \<open>The query \<open>img[srcset], picture > source[srcset]\<close>.\<close>

definition srcsetSelector :: "element \<Rightarrow> bool" where
  "srcsetSelector el =
     (srcset el \<noteq> None \<and>
      (tagName el = ''img''
       \<or> (tagName el = ''source'' \<and> parentElement el = Some ''picture'')))"

text \<open>
  \<open>part.trim().split(/\s+/, 2)[0]\<close>: the limit keeps the first two pieces, of which the
  first is taken; an array without a first element would give \<open>undefined\<close>.
\<close>

definition candidateSrc :: "string \<Rightarrow> string" where
  "candidateSrc part =
     (case take 2 (splitSpace (trim part)) of [] \<Rightarrow> ''undefined'' | s # _ \<Rightarrow> s)"

definition srcsetParts :: "string \<Rightarrow> string list" where
  "srcsetParts s = filter (\<lambda>part. trim part \<noteq> []) (splitCommaSpace (trim s))"

definition imageSrcSets :: "url_parser \<Rightarrow> page \<Rightarrow> js_error + Resource list" where
  "imageSrcSets U p =
     asResources image
       (concatMapE (\<lambda>elem.
           mapE (\<lambda>part. resolveHref U (candidateSrc part) (page_url p))
             (srcsetParts (reflected (srcset elem))))
          (filter srcsetSelector (elements p)))"

definition getMedia :: "url_parser \<Rightarrow> page \<Rightarrow> js_error + Resource list" where
  "getMedia U p =
     (case mediaSources p of
        Inl e \<Rightarrow> Inl e
      | Inr ms \<Rightarrow> (case imageSrcSets U p of Inl e \<Rightarrow> Inl e | Inr is \<Rightarrow> Inr (ms @ is)))"

subsection \<open>Style sheet images and fonts\<close>

text \<open>
  The chain \<open>.split(",").map(match).map(trim).filter(nonempty).map(resolve)\<close> that both
  \<open>getStyleSheetImages\<close> and \<open>getFonts\<close> apply to a property value.
\<close>

definition urlList :: "url_parser \<Rightarrow> string \<Rightarrow> string \<Rightarrow> js_error + string list" where
  "urlList U base v =
     mapE (\<lambda>u. resolveHref U u base)
       (filter (\<lambda>s. s \<noteq> [])
          (concat (map (\<lambda>s. case matchUrl s of None \<Rightarrow> [] | Some m \<Rightarrow> [trim m])
                     (splitChar CHR '','' v))))"

definition styleImageRule :: "url_parser \<Rightarrow> string \<Rightarrow> css_rule \<Rightarrow> js_error + string list" where
  "styleImageRule U base rule =
     (case rule of
        CSSStyleRule backgroundImage content \<Rightarrow>
          if backgroundImage \<noteq> [] then urlList U base backgroundImage
          else if content \<noteq> [] then
            (case matchUrl content of
               None \<Rightarrow> Inr []
             | Some m \<Rightarrow>
                 let u = trim m
                 in if u = [] then Inr []
                    else (case U u (Some base) of
                            None \<Rightarrow> Inl (TypeError ''Invalid URL'')
                          | Some parsed \<Rightarrow>
                              if protocol parsed = ''data:'' then Inr []
                              else (case resolveHref U u base of
                                      Inl e \<Rightarrow> Inl e | Inr h \<Rightarrow> Inr [h])))
          else Inr []
      | _ \<Rightarrow> Inr [])"

definition getStyleSheetImages :: "url_parser \<Rightarrow> page \<Rightarrow> js_error + Resource list" where
  "getStyleSheetImages U p =
     asResources image (forEachRule (styleImageRule U) (page_url p) (styleSheets p))"

definition fontRule :: "url_parser \<Rightarrow> string \<Rightarrow> css_rule \<Rightarrow> js_error + string list" where
  "fontRule U base rule =
     (case rule of
        CSSFontFaceRule s \<Rightarrow> if s \<noteq> [] then urlList U base s else Inr []
      | _ \<Rightarrow> Inr [])"

definition getFonts :: "url_parser \<Rightarrow> page \<Rightarrow> js_error + Resource list" where
  "getFonts U p =
     asResources font (forEachRule (fontRule U) (page_url p) (styleSheets p))"

subsection \<open>Favicons, iframes, manifest and objects\<close>

definition faviconOf :: "url_parser \<Rightarrow> element \<Rightarrow> js_error + Resource list" where
  "faviconOf U elem =
     (if reflected (href elem) = [] then Inr []
      else (case U (reflected (href elem)) None of
              None \<Rightarrow> Inl (TypeError ''Invalid URL'')
            | Some parsed \<Rightarrow>
                if protocol parsed = ''data:'' then Inr []
                else Inr [\<lparr>type = favicon, url = reflected (href elem)\<rparr>]))"

definition getFavicons :: "url_parser \<Rightarrow> page \<Rightarrow> js_error + Resource list" where
  "getFavicons U p =
     concatMapE (faviconOf U)
       (filter (\<lambda>el. relMatches ''icon'' el \<or> relMatches ''apple-touch-icon'' el)
          (elements p))"

definition getIframes :: "page \<Rightarrow> js_error + Resource list" where
  "getIframes p =
     Inr (map (\<lambda>elem. \<lparr>type = iframe, url = reflected (src elem)\<rparr>)
            (filter (\<lambda>el. tagName el = ''iframe'' \<and> src el \<noteq> None) (elements p)))"

text \<open>
  \<open>page.$eval\<close> takes the first element that matches and throws when there is none; the
  \<open>catch\<close> turns that into \<open>null\<close>, which the final filter removes. An object whose
  \<open>data\<close> does not parse is passed over by the empty \<open>catch\<close>.
\<close>

definition getMiscResources :: "url_parser \<Rightarrow> page \<Rightarrow> js_error + Resource list" where
  "getMiscResources U p =
     (let manifests =
            (case filter (relMatches ''manifest'') (elements p) of
               [] \<Rightarrow> []
             | elem # _ \<Rightarrow> [\<lparr>type = manifest, url = reflected (href elem)\<rparr>]);
          dataObjects =
            concat (map (\<lambda>elem.
                case U (reflected (data elem)) (Some (page_url p)) of
                  None \<Rightarrow> []
                | Some parsed \<Rightarrow> [\<lparr>type = object, url = URL_href parsed\<rparr>])
              (filter (\<lambda>el. tagName el = ''object'' \<and> data el \<noteq> None) (elements p)))
      in Inr (manifests @ dataObjects))"

subsection \<open>The generator\<close>

text \<open>
  \<open>yield* await pass(page)\<close>, one pass after the other: a pass that throws ends the
  \<open>try\<close> block, after the resources of the passes before it have been yielded.
\<close>

fun yieldAll :: "(js_error + Resource list) list \<Rightarrow> Resource list \<times> js_error option" where
  "yieldAll [] = ([], None)"
| "yieldAll (r # rs) =
     (case r of
        Inl e \<Rightarrow> ([], Some e)
      | Inr xs \<Rightarrow> (xs @ fst (yieldAll rs), snd (yieldAll rs)))"

definition dom_passes :: "url_parser \<Rightarrow> page \<Rightarrow> (js_error + Resource list) list" where
  "dom_passes U p =
     [getStyleSheets p, getImportedStyleSheets U p, getScripts p, getMedia U p,
      getStyleSheetImages U p, getFonts U p, getFavicons U p, getIframes p,
      getMiscResources U p]"

definition dom_try :: "url_parser \<Rightarrow> string \<Rightarrow> run_env \<Rightarrow> Resource list \<times> js_error option" where
  "dom_try U target env =
     (case newPage_error env of
        Some e \<Rightarrow> ([], Some e)
      | None \<Rightarrow>
         (case goto_result env of
            Inl e \<Rightarrow> ([], Some e)
          | Inr response \<Rightarrow>
             (case navigationError target response of
                Some e \<Rightarrow> ([], Some e)
              | None \<Rightarrow> yieldAll (dom_passes U (document env)))))"

definition getAllSubResources_dom ::
  "url_parser \<Rightarrow> string \<Rightarrow> run_env \<Rightarrow> nat option \<Rightarrow> event list" where
  "getAllSubResources_dom U target env consumer =
     run_generator env consumer (dom_try U target env)"


section \<open>Invariants and example inputs\<close>

text \<open>
  The urls of the responses that the listener has classified, and the invariant of the
  listener's state: the seen-set holds exactly the urls of the queue, which are distinct,
  and no queued resource is a link or has a \<open>data:\<close> url.
\<close>

definition collected :: "string \<Rightarrow> http_response list \<Rightarrow> string set" where
  "collected m rs = response_url ` {r \<in> set rs. mapResourceType r m \<noteq> None}"

definition queue_ok :: "collector \<Rightarrow> bool" where
  "queue_ok st =
     (seen st = set (map url (queue st)) \<and> distinct (map url (queue st))
      \<and> (\<forall>r \<in> set (queue st). type r \<noteq> link \<and> \<not> startsWith (url r) ''data:''))"

text \<open>
  A small URL parser to run the passes on examples: an input with a colon is absolute and
  its protocol is the text up to the colon; any other input is appended to the base.
\<close>

definition exampleParser :: url_parser where
  "exampleParser input base =
     (if CHR '':'' \<in> set input
      then Some \<lparr>URL_href = input, protocol = takeWhile (\<lambda>c. c \<noteq> CHR '':'') input @ '':''\<rparr>
      else (case base of
              None \<Rightarrow> None
            | Some b \<Rightarrow> Some \<lparr>URL_href = b @ input,
                              protocol = takeWhile (\<lambda>c. c \<noteq> CHR '':'') b @ '':''\<rparr>))"

definition exampleResponse :: "string \<Rightarrow> string \<Rightarrow> string \<Rightarrow> http_response" where
  "exampleResponse category u contentType =
     \<lparr>request = \<lparr>resourceType = category, frame = Some (Frame None)\<rparr>,
      response_url = u,
      headers = [''content-type'' \<mapsto> contentType],
      ok = True, status = 200\<rparr>"

definition okResponse :: http_response where
  "okResponse = exampleResponse ''document'' ''http://a/'' ''text/html''"

definition blankElement :: element where
  "blankElement =
     \<lparr>tagName = ''div'', parentElement = Some ''body'', src = None, srcset = None,
      href = None, rel = [], data = None\<rparr>"

definition examplePage :: "element list \<Rightarrow> page" where
  "examplePage els = \<lparr>page_url = ''http://a/'', elements = els, styleSheets = []\<rparr>"

definition exampleEnv :: "http_response option \<Rightarrow> http_response list \<Rightarrow> page \<Rightarrow> run_env" where
  "exampleEnv nav rs p =
     \<lparr>launch_error = None, newPage_error = None, goto_result = Inr nav,
      responses = rs, late_responses = [], links_error = None, document = p,
      close_error = None\<rparr>"

text \<open>
  A page load that answers with the document, a style sheet (twice), an inline image and
  an image, on a page with three anchors, one of them to the style sheet.
\<close>

definition networkExample :: run_env where
  "networkExample =
     exampleEnv (Some okResponse)
       [okResponse,
        exampleResponse ''stylesheet'' ''http://a/s.css'' ''text/css'',
        exampleResponse ''image'' ''data:image/png;base64,AAAA'' ''image/png'',
        exampleResponse ''stylesheet'' ''http://a/s.css'' ''text/css'',
        exampleResponse ''image'' ''http://a/i.png'' ''image/png'']
       (examplePage
          [blankElement\<lparr>tagName := ''a'', href := Some ''http://a/s.css''\<rparr>,
           blankElement\<lparr>tagName := ''a'', href := Some ''http://a/next''\<rparr>,
           blankElement\<lparr>tagName := ''a'', href := Some ''http://a/next''\<rparr>])"

definition duplicateImagesPage :: page where
  "duplicateImagesPage =
     examplePage
       [blankElement\<lparr>tagName := ''img'', src := Some ''http://a/i.png''\<rparr>,
        blankElement\<lparr>tagName := ''img'', src := Some ''http://a/i.png''\<rparr>]"



text \<open>Pages, rules and responses with \<open>data:\<close> urls, and two responses in nested frames.\<close>

definition dataImagePage :: page where
  "dataImagePage =
     examplePage
       [blankElement\<lparr>tagName := ''img'', src := Some ''data:image/png;base64,AAAA''\<rparr>]"

definition faviconPage :: page where
  "faviconPage =
     examplePage
       [blankElement\<lparr>tagName := ''link'', rel := [''icon''],
                     href := Some ''data:image/png;base64,AAAA''\<rparr>,
        blankElement\<lparr>tagName := ''link'', rel := [''icon''], href := Some ''http://a/f.ico''\<rparr>]"

definition cssUrl :: "string \<Rightarrow> string" where
  "cssUrl u = urlOpen @ u @ [CHR 0x22] @ '')''"

definition dataAudioResponse :: http_response where
  "dataAudioResponse = exampleResponse ''media'' ''data:audio/mpeg;base64,AAAA'' ''audio/mpeg''"

definition frameResponseA :: http_response where
  "frameResponseA =
     \<lparr>request = \<lparr>resourceType = ''document'', frame = Some (Frame (Some (Frame None)))\<rparr>,
      response_url = ''http://a/frame.html'',
      headers = [''content-type'' \<mapsto> ''text/html'', ''server'' \<mapsto> ''x''],
      ok = True, status = 200\<rparr>"

definition frameResponseB :: http_response where
  "frameResponseB =
     \<lparr>request = \<lparr>resourceType = ''document'',
                  frame = Some (Frame (Some (Frame (Some (Frame None)))))\<rparr>,
      response_url = ''http://a/frame.html'',
      headers = [''content-type'' \<mapsto> ''text/html''],
      ok = False, status = 404\<rparr>"

definition audioResponse :: http_response where
  "audioResponse = exampleResponse ''media'' ''http://a/a.mp3'' ''audio/mpeg''"

text \<open>
  Two final responses of a navigation for which \<open>response.ok()\<close> is false, as Puppeteer
  reports it for a status outside 200 to 299.
\<close>

definition notModified :: http_response where
  "notModified = (exampleResponse ''document'' ''http://a/'' ''text/html'')\<lparr>ok := False, status := 304\<rparr>"

definition notFound :: http_response where
  "notFound = (exampleResponse ''document'' ''http://a/'' ''text/html'')\<lparr>ok := False, status := 404\<rparr>"

text \<open>
  Pages with audio elements, and a page with a style sheet of another origin next to an
  inline style sheet.
\<close>

definition audioSourcePage :: page where
  "audioSourcePage =
     examplePage
       [blankElement\<lparr>tagName := ''audio''\<rparr>,
        blankElement\<lparr>tagName := ''source'', parentElement := Some ''audio'',
                     src := Some ''http://a/a.mp3''\<rparr>]"

definition audioSrcPage :: page where
  "audioSrcPage =
     examplePage
       [blankElement\<lparr>tagName := ''link'', rel := [''stylesheet''], href := Some ''http://a/s.css''\<rparr>,
        blankElement\<lparr>tagName := ''audio'', src := Some ''http://a/a.mp3''\<rparr>,
        blankElement\<lparr>tagName := ''iframe'', src := Some ''http://a/f.html''\<rparr>]"

definition sheetsPage :: page where
  "sheetsPage =
     \<lparr>page_url = ''http://a/'',
      elements = [],
      styleSheets =
        [\<lparr>sheet_href = Some ''http://cdn/x.css'', cssRules = None\<rparr>,
         \<lparr>sheet_href = None,
          cssRules = Some [CSSImportRule ''b.css'',
                           CSSStyleRule (cssUrl ''bg.png'') [],
                           CSSFontFaceRule (cssUrl ''f.woff'')]\<rparr>]\<rparr>"

text \<open>A style sheet is readable when reading its \<open>cssRules\<close> does not throw.\<close>

definition readable :: "styleSheet \<Rightarrow> bool" where
  "readable sheet = (cssRules sheet \<noteq> None)"




text \<open>
  The error with which the navigation of a run fails, if it does: the error that
  \<open>page.goto\<close> throws, or the error of the check after it. \<open>timeoutEnv\<close> is a run
  in which \<open>page.goto\<close> throws.
\<close>

definition navigationFailure :: "string \<Rightarrow> run_env \<Rightarrow> js_error option" where
  "navigationFailure target env =
     (case goto_result env of
        Inl e \<Rightarrow> Some e
      | Inr response \<Rightarrow> navigationError target response)"

definition timeoutEnv :: run_env where
  "timeoutEnv =
     (exampleEnv None [] (examplePage []))
       \<lparr>goto_result := Inl (Error ''Navigation timeout of 30000 ms exceeded'')\<rparr>"

section \<open>Properties of the helpers\<close>

lemma mapResourceType_not_link: "mapResourceType r m \<noteq> Some link"
  by (simp add: mapResourceType_def Let_def)

lemma mapResourceType_not_data:
  "mapResourceType r m = Some t \<Longrightarrow> \<not> startsWith (response_url r) ''data:''"
  by (simp add: mapResourceType_def Let_def split: if_splits)

lemma onResponse_ok: "queue_ok st \<Longrightarrow> queue_ok (onResponse m st r)"
  by (auto simp: queue_ok_def onResponse_def Let_def mapResourceType_not_link
      dest: mapResourceType_not_data split: option.splits)

lemma foldl_onResponse_ok: "queue_ok st \<Longrightarrow> queue_ok (foldl (onResponse m) st rs)"
  by (induction rs arbitrary: st) (simp_all add: onResponse_ok)

lemma onResponse_seen:
  "seen (onResponse m st r)
     = seen st \<union> (if mapResourceType r m \<noteq> None then {response_url r} else {})"
  by (auto simp: onResponse_def Let_def split: option.splits)

lemma foldl_onResponse_seen:
  "seen (foldl (onResponse m) st rs) = seen st \<union> collected m rs"
  unfolding collected_def
  by (induction rs arbitrary: st) (auto simp: onResponse_seen)

lemma yieldLinks_props:
  "distinct (map url (yieldLinks sn ls)) \<and> url ` set (yieldLinks sn ls) \<inter> sn = {}
   \<and> set (yieldLinks sn ls) \<subseteq> set ls"
  by (induction ls arbitrary: sn) (auto split: if_splits)

lemma anchorLinks_type: "r \<in> set (anchorLinks p) \<Longrightarrow> type r = link"
  by (auto simp: anchorLinks_def)

lemma emitted_run_generator:
  "emitted (run_generator env c body) =
     (if c = Some 0 \<or> launch_error env \<noteq> None then []
      else case c of None \<Rightarrow> fst body | Some n \<Rightarrow> take n (fst body))"
  by (auto simp: emitted_def run_generator_def Let_def map_concat comp_def
      split: option.splits prod.splits)

text \<open>
  The resources of the \<open>try\<close> block of network.ts: the queue, then the links. Their urls
  are distinct; the queue holds no link and no \<open>data:\<close> url; the links are none of the
  urls the listener has classified.
\<close>

lemma network_try_shape:
  "\<exists>q ls. fst (network_try t opts env) = q @ ls \<and> distinct (map url (q @ ls))
     \<and> (\<forall>r \<in> set q. type r \<noteq> link \<and> \<not> startsWith (url r) ''data:'')
     \<and> (\<forall>r \<in> set ls. type r = link
            \<and> url r \<notin> collected t (responses env @ late_responses env))
     \<and> (links opts \<noteq> Some True \<longrightarrow> ls = [])"
proof -
  define st where "st = foldl (onResponse t) \<lparr>seen = {}, queue = []\<rparr> (responses env)"
  define st' where "st' = foldl (onResponse t) st (late_responses env)"
  define ls where "ls = yieldLinks (seen st') (anchorLinks (document env))"
  have ok0: "queue_ok \<lparr>seen = {}, queue = []\<rparr>"
    by (simp add: queue_ok_def)
  have ok: "queue_ok st"
    unfolding st_def by (rule foldl_onResponse_ok [OF ok0])
  have seen': "seen st' = collected t (responses env @ late_responses env)"
    unfolding st'_def st_def collected_def by (auto simp: foldl_onResponse_seen collected_def)
  have sub: "seen st \<subseteq> seen st'"
    unfolding st'_def by (simp add: foldl_onResponse_seen)
  have l1: "distinct (map url ls)" and l2: "url ` set ls \<inter> seen st' = {}"
    and l3: "set ls \<subseteq> set (anchorLinks (document env))"
    unfolding ls_def using yieldLinks_props by blast+
  have l4: "\<forall>r \<in> set ls. type r = link"
    using l3 anchorLinks_type by blast
  have q1: "distinct (map url (queue st))" and q2: "seen st = url ` set (queue st)"
    and q3: "\<forall>r \<in> set (queue st). type r \<noteq> link \<and> \<not> startsWith (url r) ''data:''"
    using ok by (simp_all add: queue_ok_def)
  have d: "distinct (map url (queue st @ ls))"
    using q1 l1 l2 sub q2 by auto
  have full: "distinct (map url (queue st @ ls))
     \<and> (\<forall>r \<in> set (queue st). type r \<noteq> link \<and> \<not> startsWith (url r) ''data:'')
     \<and> (\<forall>r \<in> set ls. type r = link
            \<and> url r \<notin> collected t (responses env @ late_responses env))"
    using d q3 l4 l2 seen' by auto
  have none: "distinct (map url (queue st @ []))
     \<and> (\<forall>r \<in> set (queue st). type r \<noteq> link \<and> \<not> startsWith (url r) ''data:'')"
    using q1 q3 by simp
  have eq: "fst (network_try t opts env) =
      (if newPage_error env = None
          \<and> (\<exists>resp. goto_result env = Inr resp \<and> navigationError t resp = None)
       then (if links opts = Some True \<and> links_error env = None then queue st @ ls
             else queue st)
       else [])"
    by (simp add: network_try_def Let_def st_def st'_def ls_def
        split: option.splits sum.splits)
  show ?thesis
  proof (cases "newPage_error env = None
          \<and> (\<exists>resp. goto_result env = Inr resp \<and> navigationError t resp = None)")
    case False
    have "fst (network_try t opts env) = []"
      by (subst eq) (use False in auto)
    then show ?thesis by (intro exI [of _ "[]"]) simp
  next
    case nav: True
    show ?thesis
    proof (cases "links opts = Some True \<and> links_error env = None")
      case True
      have "fst (network_try t opts env) = queue st @ ls"
        by (subst eq) (use nav True in auto)
      then show ?thesis
        by (intro exI [of _ "queue st"] exI [of _ ls]) (use True full in simp)
    next
      case False
      have "fst (network_try t opts env) = queue st"
        by (subst eq) (use nav False in auto)
      then show ?thesis
        by (intro exI [of _ "queue st"] exI [of _ "[]"]) (use none in simp)
    qed
  qed
qed

lemma emitted_network_prefix:
  "\<exists>n. emitted (getAllSubResources_network t opts env c) = take n (fst (network_try t opts env))"
proof (cases "c = Some 0 \<or> launch_error env \<noteq> None")
  case True
  then have "emitted (getAllSubResources_network t opts env c)
      = take 0 (fst (network_try t opts env))"
    by (simp add: getAllSubResources_network_def emitted_run_generator)
  then show ?thesis ..
next
  case False
  show ?thesis
  proof (cases c)
    case None
    with False have "emitted (getAllSubResources_network t opts env c)
        = take (length (fst (network_try t opts env))) (fst (network_try t opts env))"
      by (simp add: getAllSubResources_network_def emitted_run_generator)
    then show ?thesis ..
  next
    case (Some n)
    with False have "emitted (getAllSubResources_network t opts env c)
        = take n (fst (network_try t opts env))"
      by (simp add: getAllSubResources_network_def emitted_run_generator)
    then show ?thesis ..
  qed
qed

lemma network_emitted_shape:
  "\<exists>xs ys. emitted (getAllSubResources_network t opts env c) = xs @ ys
     \<and> distinct (map url (xs @ ys))
     \<and> (\<forall>r \<in> set xs. type r \<noteq> link \<and> \<not> startsWith (url r) ''data:'')
     \<and> (\<forall>r \<in> set ys. type r = link
            \<and> url r \<notin> collected t (responses env @ late_responses env))
     \<and> (links opts \<noteq> Some True \<longrightarrow> ys = [])"
proof -
  obtain q ls where s: "fst (network_try t opts env) = q @ ls"
    and d: "distinct (map url (q @ ls))"
    and q: "\<forall>r \<in> set q. type r \<noteq> link \<and> \<not> startsWith (url r) ''data:''"
    and l: "\<forall>r \<in> set ls. type r = link
            \<and> url r \<notin> collected t (responses env @ late_responses env)"
    and n: "links opts \<noteq> Some True \<longrightarrow> ls = []"
    using network_try_shape by blast
  obtain n where e: "emitted (getAllSubResources_network t opts env c) = take n (q @ ls)"
    using emitted_network_prefix s by metis
  have e': "emitted (getAllSubResources_network t opts env c)
      = take n q @ take (n - length q) ls"
    using e by simp
  have d': "distinct (map url (take n q @ take (n - length q) ls))"
    using d distinct_take [of "map url (q @ ls)" n] by (simp add: take_map)
  have q': "\<forall>r \<in> set (take n q). type r \<noteq> link \<and> \<not> startsWith (url r) ''data:''"
    using q by (meson in_set_takeD)
  have l': "\<forall>r \<in> set (take (n - length q) ls). type r = link
            \<and> url r \<notin> collected t (responses env @ late_responses env)"
    using l by (meson in_set_takeD)
  have n': "links opts \<noteq> Some True \<longrightarrow> take (n - length q) ls = []"
    using n by simp
  show ?thesis
    using e' d' q' l' n' by blast
qed

section \<open>Uniqueness of the emitted urls\<close>

text \<open>
  C1, for the collector of network.ts: whatever the browser reports and however many
  resources the consumer takes, no two resources yielded by one run have the same url.
  The collector of index.ts keeps no seen-set.
\<close>

theorem network_urls_distinct:
  "distinct (map url (emitted (getAllSubResources_network target options env consumer)))"
  using network_emitted_shape [of target options env consumer] by auto

theorem network_urls_distinct_witness:
  "emitted (getAllSubResources_network ''http://a/'' \<lparr>links = Some True\<rparr> networkExample None)
     = [\<lparr>type = stylesheet, url = ''http://a/s.css''\<rparr>,
        \<lparr>type = image, url = ''http://a/i.png''\<rparr>,
        \<lparr>type = link, url = ''http://a/next''\<rparr>]
   \<and> distinct (map url (emitted
         (getAllSubResources_network ''http://a/'' \<lparr>links = Some True\<rparr> networkExample None)))"
proof -
  have e: "emitted (getAllSubResources_network ''http://a/'' \<lparr>links = Some True\<rparr> networkExample None)
     = [\<lparr>type = stylesheet, url = ''http://a/s.css''\<rparr>,
        \<lparr>type = image, url = ''http://a/i.png''\<rparr>,
        \<lparr>type = link, url = ''http://a/next''\<rparr>]"
    by code_simp
  show ?thesis
    using e network_urls_distinct [of "''http://a/''" "\<lparr>links = Some True\<rparr>" networkExample None]
    by (rule conjI)
qed

text \<open>
  The collector of index.ts on a page with two \<open>img\<close> elements of the same source yields
  that url twice.
\<close>

theorem dom_urls_repeated:
  "emitted (getAllSubResources_dom exampleParser ''http://a/''
              (exampleEnv (Some okResponse) [] duplicateImagesPage) None)
     = [\<lparr>type = image, url = ''http://a/i.png''\<rparr>, \<lparr>type = image, url = ''http://a/i.png''\<rparr>]
   \<and> \<not> distinct (map url (emitted (getAllSubResources_dom exampleParser ''http://a/''
              (exampleEnv (Some okResponse) [] duplicateImagesPage) None)))"
  by code_simp


section \<open>Urls of the data scheme\<close>

lemma concatMapE_Inr:
  "concatMapE f xs = Inr rs \<Longrightarrow> r \<in> set rs \<Longrightarrow> \<exists>x \<in> set xs. \<exists>ys. f x = Inr ys \<and> r \<in> set ys"
proof (induction xs arbitrary: rs)
  case Nil
  then show ?case by simp
next
  case (Cons x xs)
  then show ?case
    by (fastforce split: sum.splits)
qed

lemma faviconOf_not_data:
  "faviconOf U el = Inr ys \<Longrightarrow> r \<in> set ys
     \<Longrightarrow> \<exists>parsed. U (url r) None = Some parsed \<and> protocol parsed \<noteq> ''data:''"
  by (auto simp: faviconOf_def split: if_splits option.splits)

lemma getFavicons_not_data:
  "getFavicons U p = Inr rs \<Longrightarrow> r \<in> set rs
     \<Longrightarrow> \<exists>parsed. U (url r) None = Some parsed \<and> protocol parsed \<noteq> ''data:''"
  unfolding getFavicons_def
  by (blast dest: concatMapE_Inr faviconOf_not_data)

lemma content_not_data:
  "styleImageRule U base (CSSStyleRule [] c) = Inr us \<Longrightarrow> u \<in> set us
     \<Longrightarrow> \<exists>m parsed. U m (Some base) = Some parsed \<and> URL_href parsed = u
            \<and> protocol parsed \<noteq> ''data:''"
  by (fastforce simp: styleImageRule_def resolveHref_def Let_def
      split: if_splits option.splits)

text \<open>
  C2, as the code has it. In the collector of network.ts no resource that comes from a
  response has a url that starts with \<open>data:\<close>, whatever the consumer takes. In the
  collector of index.ts the favicon pass yields no url whose protocol is \<open>data:\<close>, and
  neither does the \<open>content\<close> branch of the style sheet image pass.
\<close>

theorem data_urls_dropped:
  "(\<forall>r \<in> set (emitted (getAllSubResources_network target options env consumer)).
      type r \<noteq> link \<longrightarrow> \<not> startsWith (url r) ''data:'')
   \<and> (getFavicons U p = Inr rs \<longrightarrow>
        (\<forall>r \<in> set rs. \<exists>parsed. U (url r) None = Some parsed \<and> protocol parsed \<noteq> ''data:''))
   \<and> (styleImageRule U base (CSSStyleRule [] c) = Inr us \<longrightarrow>
        (\<forall>u \<in> set us. \<exists>m parsed. U m (Some base) = Some parsed \<and> URL_href parsed = u
            \<and> protocol parsed \<noteq> ''data:''))"
proof (intro conjI)
  obtain xs ys where e: "emitted (getAllSubResources_network target options env consumer) = xs @ ys"
    and x: "\<forall>r \<in> set xs. type r \<noteq> link \<and> \<not> startsWith (url r) ''data:''"
    and y: "\<forall>r \<in> set ys. type r = link
            \<and> url r \<notin> collected target (responses env @ late_responses env)"
    using network_emitted_shape [of target options env consumer] by blast
  show "\<forall>r \<in> set (emitted (getAllSubResources_network target options env consumer)).
      type r \<noteq> link \<longrightarrow> \<not> startsWith (url r) ''data:''"
    unfolding e using x y by auto
next
  show "getFavicons U p = Inr rs \<longrightarrow>
        (\<forall>r \<in> set rs. \<exists>parsed. U (url r) None = Some parsed \<and> protocol parsed \<noteq> ''data:'')"
    using getFavicons_not_data by blast
next
  show "styleImageRule U base (CSSStyleRule [] c) = Inr us \<longrightarrow>
        (\<forall>u \<in> set us. \<exists>m parsed. U m (Some base) = Some parsed \<and> URL_href parsed = u
            \<and> protocol parsed \<noteq> ''data:'')"
    using content_not_data by blast
qed

theorem data_urls_dropped_witness:
  "emitted (getAllSubResources_network ''http://a/'' \<lparr>links = None\<rparr> networkExample None)
     = [\<lparr>type = stylesheet, url = ''http://a/s.css''\<rparr>, \<lparr>type = image, url = ''http://a/i.png''\<rparr>]
   \<and> \<not> startsWith ''http://a/s.css'' ''data:'' \<and> \<not> startsWith ''http://a/i.png'' ''data:''
   \<and> getFavicons exampleParser faviconPage = Inr [\<lparr>type = favicon, url = ''http://a/f.ico''\<rparr>]
   \<and> (\<exists>parsed. exampleParser ''http://a/f.ico'' None = Some parsed
          \<and> protocol parsed \<noteq> ''data:'')
   \<and> styleImageRule exampleParser ''http://a/'' (CSSStyleRule [] (cssUrl ''b.png''))
       = Inr [''http://a/b.png'']
   \<and> (\<exists>m parsed. exampleParser m (Some ''http://a/'') = Some parsed
          \<and> URL_href parsed = ''http://a/b.png'' \<and> protocol parsed \<noteq> ''data:'')
   \<and> styleImageRule exampleParser ''http://a/''
        (CSSStyleRule [] (cssUrl ''data:image/png;base64,AAAA'')) = Inr []"
proof -
  have e: "emitted (getAllSubResources_network ''http://a/'' \<lparr>links = None\<rparr> networkExample None)
     = [\<lparr>type = stylesheet, url = ''http://a/s.css''\<rparr>, \<lparr>type = image, url = ''http://a/i.png''\<rparr>]"
    by code_simp
  have f: "getFavicons exampleParser faviconPage = Inr [\<lparr>type = favicon, url = ''http://a/f.ico''\<rparr>]"
    by code_simp
  have s: "styleImageRule exampleParser ''http://a/'' (CSSStyleRule [] (cssUrl ''b.png''))
       = Inr [''http://a/b.png'']"
    by code_simp
  have d: "styleImageRule exampleParser ''http://a/''
        (CSSStyleRule [] (cssUrl ''data:image/png;base64,AAAA'')) = Inr []"
    by code_simp
  note t = data_urls_dropped [of "''http://a/''" "\<lparr>links = None\<rparr>" networkExample None
      exampleParser faviconPage "[\<lparr>type = favicon, url = ''http://a/f.ico''\<rparr>]"
      "''http://a/''" "cssUrl ''b.png''" "[''http://a/b.png'']"]
  show ?thesis
    using t e f s d by simp
qed

text \<open>
  The other passes of index.ts do not look at the scheme: an \<open>img\<close> element with a
  \<open>data:\<close> source is yielded as an image.
\<close>

theorem dom_data_url_emitted:
  "emitted (getAllSubResources_dom exampleParser ''http://a/''
              (exampleEnv (Some okResponse) [] dataImagePage) None)
     = [\<lparr>type = image, url = ''data:image/png;base64,AAAA''\<rparr>]
   \<and> startsWith ''data:image/png;base64,AAAA'' ''data:''"
  by code_simp

section \<open>Links in the collector of network.ts\<close>

text \<open>
  C5: unless \<open>options.links\<close> is true no yielded resource is a link. In every run the
  yielded resources are the resources of other types followed by the links; the urls of
  the links are distinct, differ from the urls yielded before them, and are none of the
  urls of the responses that the listener has classified.
\<close>

theorem links_last_and_unseen:
  "(links options \<noteq> Some True \<longrightarrow>
      (\<forall>r \<in> set (emitted (getAllSubResources_network target options env consumer)).
         type r \<noteq> link))
   \<and> (\<exists>xs ys. emitted (getAllSubResources_network target options env consumer) = xs @ ys
         \<and> (\<forall>r \<in> set xs. type r \<noteq> link) \<and> (\<forall>r \<in> set ys. type r = link)
         \<and> distinct (map url ys) \<and> url ` set ys \<inter> url ` set xs = {}
         \<and> url ` set ys
            \<inter> response_url ` {x \<in> set (responses env @ late_responses env).
                                mapResourceType x target \<noteq> None} = {})"
proof -
  obtain xs ys where e: "emitted (getAllSubResources_network target options env consumer) = xs @ ys"
    and d: "distinct (map url (xs @ ys))"
    and x: "\<forall>r \<in> set xs. type r \<noteq> link \<and> \<not> startsWith (url r) ''data:''"
    and y: "\<forall>r \<in> set ys. type r = link
            \<and> url r \<notin> collected target (responses env @ late_responses env)"
    and n: "links options \<noteq> Some True \<longrightarrow> ys = []"
    using network_emitted_shape [of target options env consumer] by blast
  have a: "links options \<noteq> Some True \<longrightarrow>
      (\<forall>r \<in> set (emitted (getAllSubResources_network target options env consumer)).
         type r \<noteq> link)"
    unfolding e using x n by auto
  have b1: "\<forall>r \<in> set xs. type r \<noteq> link" and b2: "\<forall>r \<in> set ys. type r = link"
    using x y by auto
  have b3: "distinct (map url ys)" and b4: "url ` set ys \<inter> url ` set xs = {}"
    using d by auto
  have b5: "url ` set ys
            \<inter> response_url ` {x \<in> set (responses env @ late_responses env).
                                mapResourceType x target \<noteq> None} = {}"
    using y unfolding collected_def by auto
  show ?thesis
    using a e b1 b2 b3 b4 b5 by blast
qed

theorem links_last_and_unseen_witness:
  "emitted (getAllSubResources_network ''http://a/'' \<lparr>links = Some False\<rparr> networkExample None)
     = [\<lparr>type = stylesheet, url = ''http://a/s.css''\<rparr>, \<lparr>type = image, url = ''http://a/i.png''\<rparr>]
   \<and> emitted (getAllSubResources_network ''http://a/'' \<lparr>links = Some True\<rparr> networkExample None)
     = [\<lparr>type = stylesheet, url = ''http://a/s.css''\<rparr>, \<lparr>type = image, url = ''http://a/i.png''\<rparr>]
       @ [\<lparr>type = link, url = ''http://a/next''\<rparr>]
   \<and> (\<exists>xs ys. emitted (getAllSubResources_network ''http://a/'' \<lparr>links = Some True\<rparr>
                   networkExample None) = xs @ ys
         \<and> (\<forall>r \<in> set xs. type r \<noteq> link) \<and> (\<forall>r \<in> set ys. type r = link)
         \<and> distinct (map url ys) \<and> url ` set ys \<inter> url ` set xs = {}
         \<and> url ` set ys
            \<inter> response_url ` {x \<in> set (responses networkExample @ late_responses networkExample).
                                mapResourceType x ''http://a/'' \<noteq> None} = {})"
proof -
  have a: "emitted (getAllSubResources_network ''http://a/'' \<lparr>links = Some False\<rparr> networkExample None)
     = [\<lparr>type = stylesheet, url = ''http://a/s.css''\<rparr>, \<lparr>type = image, url = ''http://a/i.png''\<rparr>]"
    by code_simp
  have b: "emitted (getAllSubResources_network ''http://a/'' \<lparr>links = Some True\<rparr> networkExample None)
     = [\<lparr>type = stylesheet, url = ''http://a/s.css''\<rparr>, \<lparr>type = image, url = ''http://a/i.png''\<rparr>]
       @ [\<lparr>type = link, url = ''http://a/next''\<rparr>]"
    by code_simp
  note t = links_last_and_unseen [of "\<lparr>links = Some True\<rparr>" "''http://a/''" networkExample None]
  show ?thesis
    using a b t by blast
qed

section \<open>Classification of media responses\<close>

text \<open>
  C8, for responses whose url does not start with \<open>data:\<close>: a response of request
  category \<open>media\<close> is audio if its content type starts with \<open>audio/\<close>, video if it
  starts with \<open>video/\<close>, and is dropped otherwise.
\<close>

theorem media_classification:
  "resourceType (request response) = ''media''
   \<Longrightarrow> \<not> startsWith (response_url response) ''data:''
   \<Longrightarrow> mapResourceType response mainFrameUrl =
       (let contentType = (case headers response ''content-type'' of None \<Rightarrow> [] | Some v \<Rightarrow> v)
        in if startsWith contentType ''audio/'' then Some audio
           else if startsWith contentType ''video/'' then Some video
           else None)"
  by (simp add: mapResourceType_def Let_def)

theorem media_classification_witness:
  "resourceType (request audioResponse) = ''media''
   \<and> \<not> startsWith (response_url audioResponse) ''data:''
   \<and> headers audioResponse ''content-type'' = Some ''audio/mpeg''
   \<and> mapResourceType audioResponse ''http://a/'' = Some audio
   \<and> mapResourceType (exampleResponse ''media'' ''http://a/v.mp4'' ''video/mp4'') ''http://a/''
       = Some video
   \<and> mapResourceType (exampleResponse ''media'' ''http://a/x.bin'' ''text/plain'') ''http://a/''
       = None"
proof -
  have h1: "resourceType (request audioResponse) = ''media''"
    by (simp add: audioResponse_def exampleResponse_def)
  have h2: "\<not> startsWith (response_url audioResponse) ''data:''"
    by (simp add: audioResponse_def exampleResponse_def startsWith_def)
  have h3: "headers audioResponse ''content-type'' = Some ''audio/mpeg''"
    by (simp add: audioResponse_def exampleResponse_def)
  have a: "mapResourceType audioResponse ''http://a/'' = Some audio"
    using media_classification [OF h1 h2, of "''http://a/''"]
    by (simp add: h3 startsWith_def)
  have h4: "resourceType (request (exampleResponse ''media'' ''http://a/v.mp4'' ''video/mp4'')) = ''media''"
    "\<not> startsWith (response_url (exampleResponse ''media'' ''http://a/v.mp4'' ''video/mp4'')) ''data:''"
    "resourceType (request (exampleResponse ''media'' ''http://a/x.bin'' ''text/plain'')) = ''media''"
    "\<not> startsWith (response_url (exampleResponse ''media'' ''http://a/x.bin'' ''text/plain'')) ''data:''"
    by (simp_all add: exampleResponse_def startsWith_def)
  have b: "mapResourceType (exampleResponse ''media'' ''http://a/v.mp4'' ''video/mp4'') ''http://a/''
       = Some video"
    using media_classification [OF h4(1) h4(2), of "''http://a/''"]
    by (simp add: exampleResponse_def startsWith_def)
  have c: "mapResourceType (exampleResponse ''media'' ''http://a/x.bin'' ''text/plain'') ''http://a/''
       = None"
    using media_classification [OF h4(3) h4(4), of "''http://a/''"]
    by (simp add: exampleResponse_def startsWith_def)
  show ?thesis
    using h1 h2 h3 a b c by simp
qed

text \<open>
  A media response with a \<open>data:\<close> url is dropped before its content type is read, also
  when the content type starts with \<open>audio/\<close>.
\<close>

theorem media_data_url_dropped:
  "resourceType (request dataAudioResponse) = ''media''
   \<and> headers dataAudioResponse ''content-type'' = Some ''audio/mpeg''
   \<and> startsWith ''audio/mpeg'' ''audio/''
   \<and> mapResourceType dataAudioResponse ''http://a/'' = None"
  by (simp add: dataAudioResponse_def exampleResponse_def mapResourceType_def startsWith_def)

section \<open>What the classification depends on\<close>

text \<open>
  C10: two responses that agree on the request category, the url, the content-type header
  and on whether the request's frame has a parent frame are classified alike, whatever
  the two \<open>mainFrameUrl\<close> arguments are.
\<close>

theorem mapResourceType_deterministic:
  assumes "resourceType (request r1) = resourceType (request r2)"
    and "response_url r1 = response_url r2"
    and "headers r1 ''content-type'' = headers r2 ''content-type''"
    and "(case frame (request r1) of None \<Rightarrow> False | Some f \<Rightarrow> parentFrame f \<noteq> None)
       = (case frame (request r2) of None \<Rightarrow> False | Some f \<Rightarrow> parentFrame f \<noteq> None)"
  shows "mapResourceType r1 mainFrameUrl1 = mapResourceType r2 mainFrameUrl2"
  using assms by (simp add: mapResourceType_def Let_def)

theorem mapResourceType_deterministic_witness:
  "resourceType (request frameResponseA) = resourceType (request frameResponseB)
   \<and> response_url frameResponseA = response_url frameResponseB
   \<and> headers frameResponseA ''content-type'' = headers frameResponseB ''content-type''
   \<and> frameResponseA \<noteq> frameResponseB
   \<and> mapResourceType frameResponseA ''http://a/'' = Some iframe
   \<and> mapResourceType frameResponseB ''http://b/'' = Some iframe"
proof -
  have h1: "resourceType (request frameResponseA) = resourceType (request frameResponseB)"
    and h2: "response_url frameResponseA = response_url frameResponseB"
    and h3: "headers frameResponseA ''content-type'' = headers frameResponseB ''content-type''"
    and h4: "(case frame (request frameResponseA) of None \<Rightarrow> False
              | Some f \<Rightarrow> parentFrame f \<noteq> None)
       = (case frame (request frameResponseB) of None \<Rightarrow> False
          | Some f \<Rightarrow> parentFrame f \<noteq> None)"
    and ne: "frameResponseA \<noteq> frameResponseB"
    by (simp_all add: frameResponseA_def frameResponseB_def)
  have a: "mapResourceType frameResponseA ''http://a/'' = Some iframe"
    by (simp add: frameResponseA_def mapResourceType_def startsWith_def)
  have "mapResourceType frameResponseB ''http://b/'' = mapResourceType frameResponseA ''http://a/''"
    using mapResourceType_deterministic [OF h1 h2 h3 h4, of "''http://a/''" "''http://b/''"]
    by simp
  with a have b: "mapResourceType frameResponseB ''http://b/'' = Some iframe"
    by simp
  show ?thesis
    using h1 h2 h3 ne a b by simp
qed


section \<open>Failure of the navigation\<close>

lemma includesStr_startsWith: "startsWith s p \<Longrightarrow> includesStr s p"
  by (cases s) (simp_all add: startsWith_def)

lemma includesStr_append: "includesStr (xs @ p @ ys) p"
proof (induction xs)
  case Nil
  show ?case by (rule includesStr_startsWith) (simp add: startsWith_def)
next
  case (Cons x xs)
  then show ?case by simp
qed

lemma navigationError_message:
  "navigationError target response = Some e \<Longrightarrow>
     \<exists>msg. e = Error msg \<and> includesStr msg target
       \<and> (\<forall>r. response = Some r \<longrightarrow> includesStr msg (digits (status r)))"
proof (cases response)
  case None
  assume "navigationError target response = Some e"
  with None have e: "e = Error (''Failed to navigate to '' @ target @ [])"
    by (simp add: navigationError_def)
  have "includesStr (''Failed to navigate to '' @ target @ []) target"
    by (rule includesStr_append)
  with e None show ?thesis by simp
next
  case (Some r)
  assume "navigationError target response = Some e"
  with Some have e: "e = Error (''Failed to navigate to '' @ target @ (''. HTTP '' @ digits (status r)))"
    by (simp add: navigationError_def split: if_splits)
  have 1: "includesStr (''Failed to navigate to '' @ target @ (''. HTTP '' @ digits (status r))) target"
    by (rule includesStr_append)
  have "includesStr ((''Failed to navigate to '' @ target @ ''. HTTP '') @ digits (status r) @ []) (digits (status r))"
    by (rule includesStr_append)
  then have 2: "includesStr (''Failed to navigate to '' @ target @ (''. HTTP '' @ digits (status r))) (digits (status r))"
    by simp
  from e 1 2 Some show ?thesis by simp
qed

lemma run_generator_failed:
  "launch_error env = None \<Longrightarrow> consumer \<noteq> Some 0
   \<Longrightarrow> run_generator env consumer ([], Some e)
       = [Close, Throw (case close_error env of None \<Rightarrow> e | Some ce \<Rightarrow> ce)]"
  by (cases consumer; cases "close_error env") (auto simp: run_generator_def)

lemma navigationFailure_iff:
  "(navigationFailure target env \<noteq> None)
     = ((\<exists>e. goto_result env = Inl e) \<or> goto_result env = Inr None
         \<or> (\<exists>r. goto_result env = Inr (Some r) \<and> \<not> ok r))"
  by (cases "goto_result env")
     (auto simp: navigationFailure_def navigationError_def split: option.splits)

text \<open>
  C3, as the code has it, for a run that has launched the browser and opened the page.
  The navigation fails exactly when \<open>page.goto\<close> throws, or returns no response, or
  returns a response for which \<open>response.ok()\<close> is false. Then both collectors yield
  nothing, close the browser and throw: the error of the navigation, or the error of
  \<open>browser.close()\<close> when that throws. The error of the navigation is the one
  \<open>page.goto\<close> has thrown, unchanged; otherwise it is the error of the check, whose
  message contains the target and, when there is a response, its status. When the
  navigation does not fail, the collector of index.ts goes on to its passes, the
  \<open>try\<close> block of network.ts can only end with the error of the links query, and the
  collector of network.ts returns normally when neither that query nor
  \<open>browser.close()\<close> throws.
\<close>

theorem navigation_failure_fatal:
  assumes "launch_error env = None" and "newPage_error env = None"
    and "consumer \<noteq> Some 0"
  shows "((navigationFailure target env \<noteq> None)
           = ((\<exists>e. goto_result env = Inl e) \<or> goto_result env = Inr None
               \<or> (\<exists>r. goto_result env = Inr (Some r) \<and> \<not> ok r)))
    \<and> (\<forall>e. navigationFailure target env = Some e \<longrightarrow>
          getAllSubResources_network target options env consumer
            = [Close, Throw (case close_error env of None \<Rightarrow> e | Some ce \<Rightarrow> ce)]
          \<and> getAllSubResources_dom U target env consumer
            = [Close, Throw (case close_error env of None \<Rightarrow> e | Some ce \<Rightarrow> ce)])
    \<and> (\<forall>e. goto_result env = Inl e \<longrightarrow> navigationFailure target env = Some e)
    \<and> (\<forall>response e.
          goto_result env = Inr response \<and> navigationFailure target env = Some e \<longrightarrow>
          (\<exists>msg. e = Error msg \<and> includesStr msg target
                \<and> (\<forall>r. response = Some r \<longrightarrow> includesStr msg (digits (status r)))))
    \<and> (navigationFailure target env = None \<longrightarrow>
          dom_try U target env = yieldAll (dom_passes U (document env))
          \<and> snd (network_try target options env)
              = (if links options = Some True then links_error env else None))
    \<and> (navigationFailure target env = None \<and> close_error env = None
         \<and> (links options = Some True \<longrightarrow> links_error env = None) \<longrightarrow>
          (\<exists>ys. getAllSubResources_network target options env consumer
                  = map Yield ys @ [Close, Return]))"
proof (intro conjI allI impI)
  show "(navigationFailure target env \<noteq> None)
           = ((\<exists>e. goto_result env = Inl e) \<or> goto_result env = Inr None
               \<or> (\<exists>r. goto_result env = Inr (Some r) \<and> \<not> ok r))"
    by (rule navigationFailure_iff)
next
  fix e assume e: "navigationFailure target env = Some e"
  have n: "network_try target options env = ([], Some e)"
    using assms e by (auto simp: network_try_def navigationFailure_def split: sum.splits)
  have d: "dom_try U target env = ([], Some e)"
    using assms e by (auto simp: dom_try_def navigationFailure_def split: sum.splits)
  show "getAllSubResources_network target options env consumer
            = [Close, Throw (case close_error env of None \<Rightarrow> e | Some ce \<Rightarrow> ce)]"
    unfolding getAllSubResources_network_def n
    by (rule run_generator_failed [OF assms(1) assms(3)])
  show "getAllSubResources_dom U target env consumer
            = [Close, Throw (case close_error env of None \<Rightarrow> e | Some ce \<Rightarrow> ce)]"
    unfolding getAllSubResources_dom_def d
    by (rule run_generator_failed [OF assms(1) assms(3)])
next
  fix e assume "goto_result env = Inl e"
  then show "navigationFailure target env = Some e"
    by (simp add: navigationFailure_def)
next
  fix response e
  assume "goto_result env = Inr response \<and> navigationFailure target env = Some e"
  then have "navigationError target response = Some e"
    by (auto simp: navigationFailure_def)
  then show "\<exists>msg. e = Error msg \<and> includesStr msg target
                \<and> (\<forall>r. response = Some r \<longrightarrow> includesStr msg (digits (status r)))"
    by (rule navigationError_message)
next
  assume ok: "navigationFailure target env = None"
  then obtain response where g: "goto_result env = Inr response"
    and c: "navigationError target response = None"
    by (cases "goto_result env") (simp_all add: navigationFailure_def)
  show "dom_try U target env = yieldAll (dom_passes U (document env))"
    using assms g c by (simp add: dom_try_def)
  show "snd (network_try target options env)
              = (if links options = Some True then links_error env else None)"
    using assms g c by (simp add: network_try_def Let_def split: option.splits)
next
  assume a: "navigationFailure target env = None \<and> close_error env = None
         \<and> (links options = Some True \<longrightarrow> links_error env = None)"
  then obtain response where g: "goto_result env = Inr response"
    and c: "navigationError target response = None"
    by (cases "goto_result env") (simp_all add: navigationFailure_def)
  have "snd (network_try target options env) = None"
    using assms g c a by (simp add: network_try_def Let_def split: option.splits)
  then show "\<exists>ys. getAllSubResources_network target options env consumer
                  = map Yield ys @ [Close, Return]"
    using assms a unfolding getAllSubResources_network_def
    by (cases consumer; cases "network_try target options env")
       (auto simp: run_generator_def)
qed

theorem navigation_failure_fatal_witness:
  "getAllSubResources_network ''http://a/'' \<lparr>links = Some True\<rparr>
      (exampleEnv (Some notFound) [] (examplePage [])) None
     = [Close, Throw (Error ''Failed to navigate to http://a/. HTTP 404'')]
   \<and> getAllSubResources_dom exampleParser ''http://a/''
      (exampleEnv (Some notFound) [] (examplePage [])) None
     = [Close, Throw (Error ''Failed to navigate to http://a/. HTTP 404'')]
   \<and> includesStr ''Failed to navigate to http://a/. HTTP 404'' ''http://a/''
   \<and> includesStr ''Failed to navigate to http://a/. HTTP 404'' ''404''
   \<and> getAllSubResources_dom exampleParser ''http://a/''
      (exampleEnv None [] (examplePage [])) None
     = [Close, Throw (Error ''Failed to navigate to http://a/'')]
   \<and> getAllSubResources_network ''http://a/'' \<lparr>links = Some True\<rparr> timeoutEnv None
     = [Close, Throw (Error ''Navigation timeout of 30000 ms exceeded'')]
   \<and> getAllSubResources_dom exampleParser ''http://a/'' timeoutEnv None
     = [Close, Throw (Error ''Navigation timeout of 30000 ms exceeded'')]
   \<and> navigationFailure ''http://a/'' networkExample = None
   \<and> getAllSubResources_network ''http://a/'' \<lparr>links = None\<rparr> networkExample None
     = map Yield [\<lparr>type = stylesheet, url = ''http://a/s.css''\<rparr>,
                  \<lparr>type = image, url = ''http://a/i.png''\<rparr>] @ [Close, Return]"
proof -
  define env404 where "env404 = exampleEnv (Some notFound) [] (examplePage [])"
  define env0 where "env0 = exampleEnv None [] (examplePage [])"
  have n: "navigationFailure ''http://a/'' env404
      = Some (Error ''Failed to navigate to http://a/. HTTP 404'')"
    unfolding env404_def by code_simp
  have n0: "navigationFailure ''http://a/'' env0
      = Some (Error ''Failed to navigate to http://a/'')"
    unfolding env0_def by code_simp
  have nt: "navigationFailure ''http://a/'' timeoutEnv
      = Some (Error ''Navigation timeout of 30000 ms exceeded'')"
    by code_simp
  have ns: "navigationFailure ''http://a/'' networkExample = None"
    by code_simp
  have d: "digits (status notFound) = ''404''"
    by code_simp
  have g: "goto_result env404 = Inr (Some notFound)"
    by (simp add: env404_def exampleEnv_def)
  have a: "launch_error env404 = None" "newPage_error env404 = None" "close_error env404 = None"
    "launch_error env0 = None" "newPage_error env0 = None" "close_error env0 = None"
    "launch_error timeoutEnv = None" "newPage_error timeoutEnv = None"
    "close_error timeoutEnv = None"
    by (simp_all add: env404_def env0_def timeoutEnv_def exampleEnv_def)
  have c: "None \<noteq> Some (0::nat)" by simp
  note t1 = navigation_failure_fatal [OF a(1) a(2) c, where target = "''http://a/''"
      and options = "\<lparr>links = Some True\<rparr>" and U = exampleParser]
  note t2 = navigation_failure_fatal [OF a(4) a(5) c, where target = "''http://a/''"
      and options = "\<lparr>links = Some True\<rparr>" and U = exampleParser]
  note t3 = navigation_failure_fatal [OF a(7) a(8) c, where target = "''http://a/''"
      and options = "\<lparr>links = Some True\<rparr>" and U = exampleParser]
  have r: "getAllSubResources_network ''http://a/'' \<lparr>links = None\<rparr> networkExample None
     = map Yield [\<lparr>type = stylesheet, url = ''http://a/s.css''\<rparr>,
                  \<lparr>type = image, url = ''http://a/i.png''\<rparr>] @ [Close, Return]"
    by code_simp
  have i: "\<exists>msg. Error ''Failed to navigate to http://a/. HTTP 404'' = Error msg
      \<and> includesStr msg ''http://a/''
      \<and> (\<forall>r. Some notFound = Some r \<longrightarrow> includesStr msg (digits (status r)))"
    using t1 g n by blast
  have i1: "includesStr ''Failed to navigate to http://a/. HTTP 404'' ''http://a/''"
    and i2: "includesStr ''Failed to navigate to http://a/. HTTP 404'' ''404''"
    using i d by auto
  have r1: "getAllSubResources_network ''http://a/'' \<lparr>links = Some True\<rparr> env404 None
       = [Close, Throw (Error ''Failed to navigate to http://a/. HTTP 404'')]"
    and r2: "getAllSubResources_dom exampleParser ''http://a/'' env404 None
       = [Close, Throw (Error ''Failed to navigate to http://a/. HTTP 404'')]"
    using t1 n a(3) by auto
  have r3: "getAllSubResources_dom exampleParser ''http://a/'' env0 None
       = [Close, Throw (Error ''Failed to navigate to http://a/'')]"
    using t2 n0 a(6) by auto
  have r4: "getAllSubResources_network ''http://a/'' \<lparr>links = Some True\<rparr> timeoutEnv None
       = [Close, Throw (Error ''Navigation timeout of 30000 ms exceeded'')]"
    and r5: "getAllSubResources_dom exampleParser ''http://a/'' timeoutEnv None
       = [Close, Throw (Error ''Navigation timeout of 30000 ms exceeded'')]"
    using t3 nt a(9) by auto
  show ?thesis
    using r1 r2 r3 r4 r5 i1 i2 ns r unfolding env404_def env0_def by simp
qed

text \<open>
  The check reads \<open>response.ok()\<close>, not the status class: a final response with
  status 304, for which \<open>ok()\<close> is false, fails the run although its status is 3xx.
\<close>

theorem final_3xx_is_fatal:
  "200 \<le> status notModified \<and> status notModified < 400
   \<and> getAllSubResources_network ''http://a/'' \<lparr>links = None\<rparr>
        (exampleEnv (Some notModified) [] (examplePage [])) None
       = [Close, Throw (Error ''Failed to navigate to http://a/. HTTP 304'')]
   \<and> getAllSubResources_dom exampleParser ''http://a/''
        (exampleEnv (Some notModified) [] (examplePage [])) None
       = [Close, Throw (Error ''Failed to navigate to http://a/. HTTP 304'')]"
  by code_simp

section \<open>Closing the browser\<close>

lemma run_generator_shape:
  assumes "launch_error env = None" and "consumer \<noteq> Some 0"
  shows "\<exists>ys fin. run_generator env consumer body = map Yield ys @ [Close, fin]
      \<and> (fin = Return \<or> (\<exists>e. fin = Throw e))
      \<and> (close_error env = None \<longrightarrow>
           (consumer = None \<or> (\<exists>n. consumer = Some n \<and> length (fst body) < n)) \<longrightarrow>
             ys = fst body \<and> fin = (case snd body of None \<Rightarrow> Return | Some e \<Rightarrow> Throw e))
      \<and> (close_error env = None \<longrightarrow>
           (\<exists>n. consumer = Some n \<and> n \<le> length (fst body)) \<longrightarrow> fin = Return)
      \<and> (\<forall>e. close_error env = Some e \<longrightarrow> fin = Throw e)"
proof (cases body)
  case (Pair items err)
  show ?thesis
  proof (cases consumer)
    case None
    then show ?thesis
      using assms Pair
      by (cases "close_error env"; cases err) (fastforce simp: run_generator_def)+
  next
    case (Some n)
    then show ?thesis
      using assms Pair
      by (cases "close_error env"; cases err; cases "n \<le> length items")
         (fastforce simp: run_generator_def)+
  qed
qed

text \<open>
  C4: a run of either collector that has launched the browser and has been resumed at
  least once yields resources, then closes the browser, then ends, by returning or by
  throwing: nothing is thrown before the browser is closed, and it is closed once. When
  \<open>browser.close()\<close> completes and the consumer has not stopped the generator, the run
  ends by throwing the very error the \<open>try\<close> block ended with, if there is one, and by
  returning otherwise. A consumer that stops early gets the browser closed and no error.
  When \<open>browser.close()\<close> itself throws, that error ends the run.
\<close>

theorem browser_closed_then_rethrown:
  assumes "launch_error env = None" and "consumer \<noteq> Some 0"
    and "body = network_try target options env \<and> run = getAllSubResources_network target options env consumer
       \<or> body = dom_try U target env \<and> run = getAllSubResources_dom U target env consumer"
  shows "\<exists>ys fin. run = map Yield ys @ [Close, fin]
      \<and> (fin = Return \<or> (\<exists>e. fin = Throw e))
      \<and> (close_error env = None \<longrightarrow>
           (consumer = None \<or> (\<exists>n. consumer = Some n \<and> length (fst body) < n)) \<longrightarrow>
             ys = fst body \<and> fin = (case snd body of None \<Rightarrow> Return | Some e \<Rightarrow> Throw e))
      \<and> (close_error env = None \<longrightarrow>
           (\<exists>n. consumer = Some n \<and> n \<le> length (fst body)) \<longrightarrow> fin = Return)
      \<and> (\<forall>e. close_error env = Some e \<longrightarrow> fin = Throw e)"
proof -
  have "run = run_generator env consumer body"
    using assms(3) by (auto simp: getAllSubResources_network_def getAllSubResources_dom_def)
  then show ?thesis
    using run_generator_shape [OF assms(1) assms(2), of body] by simp
qed

theorem browser_closed_then_rethrown_witness:
  "dom_try exampleParser ''http://a/'' (exampleEnv (Some okResponse) [] audioSrcPage)
     = ([\<lparr>type = stylesheet, url = ''http://a/s.css''\<rparr>], Some (Error ''Reached unreachable code.''))
   \<and> getAllSubResources_dom exampleParser ''http://a/''
        (exampleEnv (Some okResponse) [] audioSrcPage) None
     = map Yield [\<lparr>type = stylesheet, url = ''http://a/s.css''\<rparr>]
       @ [Close, Throw (Error ''Reached unreachable code.'')]
   \<and> getAllSubResources_dom exampleParser ''http://a/''
        (exampleEnv (Some okResponse) [] audioSrcPage) (Some 1)
     = map Yield [\<lparr>type = stylesheet, url = ''http://a/s.css''\<rparr>] @ [Close, Return]
   \<and> getAllSubResources_network ''http://a/'' \<lparr>links = None\<rparr>
        (networkExample\<lparr>newPage_error := Some (Error ''no page'')\<rparr>) None
     = map Yield [] @ [Close, Throw (Error ''no page'')]"
proof -
  define env where "env = exampleEnv (Some okResponse) [] audioSrcPage"
  define env' where "env' = networkExample\<lparr>newPage_error := Some (Error ''no page'')\<rparr>"
  have l: "launch_error env = None" "close_error env = None"
    "launch_error env' = None" "close_error env' = None"
    by (simp_all add: env_def env'_def exampleEnv_def networkExample_def)
  have b: "dom_try exampleParser ''http://a/'' env
     = ([\<lparr>type = stylesheet, url = ''http://a/s.css''\<rparr>], Some (Error ''Reached unreachable code.''))"
    unfolding env_def by code_simp
  have b': "network_try ''http://a/'' \<lparr>links = None\<rparr> env' = ([], Some (Error ''no page''))"
    unfolding env'_def by code_simp
  have c: "None \<noteq> Some (0::nat)" "Some (1::nat) \<noteq> Some 0" by simp_all
  have t1: "getAllSubResources_dom exampleParser ''http://a/'' env None
     = map Yield [\<lparr>type = stylesheet, url = ''http://a/s.css''\<rparr>]
       @ [Close, Throw (Error ''Reached unreachable code.'')]"
    using browser_closed_then_rethrown [OF l(1) c(1), where U = exampleParser
        and target = "''http://a/''" and body = "dom_try exampleParser ''http://a/'' env"
        and run = "getAllSubResources_dom exampleParser ''http://a/'' env None"] l(2) b
    by auto
  have t2: "getAllSubResources_dom exampleParser ''http://a/'' env (Some 1)
     = map Yield [\<lparr>type = stylesheet, url = ''http://a/s.css''\<rparr>] @ [Close, Return]"
    unfolding env_def by code_simp
  have t3: "getAllSubResources_network ''http://a/'' \<lparr>links = None\<rparr> env' None
     = map Yield [] @ [Close, Throw (Error ''no page'')]"
    using browser_closed_then_rethrown [OF l(3) c(1), where options = "\<lparr>links = None\<rparr>"
        and target = "''http://a/''" and body = "network_try ''http://a/'' \<lparr>links = None\<rparr> env'"
        and run = "getAllSubResources_network ''http://a/'' \<lparr>links = None\<rparr> env' None"] l(4) b'
    by auto
  show ?thesis
    using b t1 t2 t3 unfolding env_def env'_def by simp
qed

section \<open>Media elements\<close>

text \<open>
  C6 at a \<open>source\<close> element inside an \<open>audio\<close> element: \<open>mediaSource\<close> would
  classify it as audio, but the query selects \<open>source\<close> elements only below \<open>video\<close>,
  so the media pass and the whole run yield nothing for it. An \<open>audio\<close> element with a
  \<open>src\<close> is selected and reaches the branch that throws.
\<close>

theorem audio_source_not_collected:
  "getMedia exampleParser audioSourcePage = Inr []
   \<and> emitted (getAllSubResources_dom exampleParser ''http://a/''
        (exampleEnv (Some okResponse) [] audioSourcePage) None) = []
   \<and> mediaSource (blankElement\<lparr>tagName := ''source'', parentElement := Some ''audio'',
                                 src := Some ''http://a/a.mp3''\<rparr>)
      = Inr \<lparr>type = audio, url = ''http://a/a.mp3''\<rparr>
   \<and> getMedia exampleParser audioSrcPage = Inl (Error ''Reached unreachable code.'')"
  by code_simp

section \<open>Style sheets that cannot be read\<close>

lemma forEachRule_readable:
  "forEachRule body pageURL (filter readable sheets) = forEachRule body pageURL sheets"
  unfolding forEachRule_def
  by (induction sheets) (auto simp: readable_def split: sum.splits option.splits)

lemma forEachRule_unreadable:
  "\<forall>s \<in> set sheets. cssRules s = None \<Longrightarrow> forEachRule body pageURL sheets = Inr []"
  unfolding forEachRule_def
  by (induction sheets) auto

lemma passes_without_sheets:
  "getStyleSheets (p\<lparr>styleSheets := ss\<rparr>) = getStyleSheets p"
  "getScripts (p\<lparr>styleSheets := ss\<rparr>) = getScripts p"
  "mediaSources (p\<lparr>styleSheets := ss\<rparr>) = mediaSources p"
  "imageSrcSets U (p\<lparr>styleSheets := ss\<rparr>) = imageSrcSets U p"
  "getFavicons U (p\<lparr>styleSheets := ss\<rparr>) = getFavicons U p"
  "getIframes (p\<lparr>styleSheets := ss\<rparr>) = getIframes p"
  "getMiscResources U (p\<lparr>styleSheets := ss\<rparr>) = getMiscResources U p"
  by (simp_all add: getStyleSheets_def getScripts_def mediaSources_def imageSrcSets_def
      getFavicons_def getIframes_def getMiscResources_def)

lemma getMedia_without_sheets: "getMedia U (p\<lparr>styleSheets := ss\<rparr>) = getMedia U p"
  unfolding getMedia_def passes_without_sheets ..

lemma sheet_passes_readable:
  "getImportedStyleSheets U (p\<lparr>styleSheets := filter readable (styleSheets p)\<rparr>)
     = getImportedStyleSheets U p"
  "getStyleSheetImages U (p\<lparr>styleSheets := filter readable (styleSheets p)\<rparr>)
     = getStyleSheetImages U p"
  "getFonts U (p\<lparr>styleSheets := filter readable (styleSheets p)\<rparr>) = getFonts U p"
  by (simp_all add: getImportedStyleSheets_def getStyleSheetImages_def getFonts_def
      forEachRule_readable)

lemma dom_passes_readable:
  "dom_passes U (p\<lparr>styleSheets := filter readable (styleSheets p)\<rparr>) = dom_passes U p"
  unfolding dom_passes_def passes_without_sheets getMedia_without_sheets sheet_passes_readable ..

lemma dom_try_readable:
  "dom_try U target (env\<lparr>document := (document env)\<lparr>styleSheets :=
                 filter readable (styleSheets (document env))\<rparr>\<rparr>)
     = dom_try U target env"
  by (simp add: dom_try_def dom_passes_readable split: option.splits sum.splits)

lemma run_generator_env:
  "launch_error env' = launch_error env \<Longrightarrow> close_error env' = close_error env
   \<Longrightarrow> run_generator env' consumer body = run_generator env consumer body"
  unfolding run_generator_def by (simp only:)

text \<open>
  C9: each of the three passes that read style sheets gives the same result as on the
  page without its unreadable style sheets, and so does the whole run; on a page whose
  style sheets are all unreadable the three passes succeed with no resource.
\<close>

theorem unreadable_sheets_skipped:
  "getImportedStyleSheets U (p\<lparr>styleSheets := filter readable (styleSheets p)\<rparr>)
     = getImportedStyleSheets U p
   \<and> getStyleSheetImages U (p\<lparr>styleSheets := filter readable (styleSheets p)\<rparr>)
     = getStyleSheetImages U p
   \<and> getFonts U (p\<lparr>styleSheets := filter readable (styleSheets p)\<rparr>) = getFonts U p
   \<and> ((\<forall>s \<in> set (styleSheets p). cssRules s = None) \<longrightarrow>
        getImportedStyleSheets U p = Inr [] \<and> getStyleSheetImages U p = Inr []
        \<and> getFonts U p = Inr [])
   \<and> getAllSubResources_dom U target
        (env\<lparr>document := (document env)\<lparr>styleSheets :=
                 filter readable (styleSheets (document env))\<rparr>\<rparr>) consumer
     = getAllSubResources_dom U target env consumer"
proof (intro conjI impI)
  show "getImportedStyleSheets U (p\<lparr>styleSheets := filter readable (styleSheets p)\<rparr>)
     = getImportedStyleSheets U p"
    by (rule sheet_passes_readable)
  show "getStyleSheetImages U (p\<lparr>styleSheets := filter readable (styleSheets p)\<rparr>)
     = getStyleSheetImages U p"
    by (rule sheet_passes_readable)
  show "getFonts U (p\<lparr>styleSheets := filter readable (styleSheets p)\<rparr>) = getFonts U p"
    by (rule sheet_passes_readable)
next
  assume a: "\<forall>s \<in> set (styleSheets p). cssRules s = None"
  show "getImportedStyleSheets U p = Inr []"
    by (simp add: getImportedStyleSheets_def forEachRule_unreadable [OF a] asResources_def)
  show "getStyleSheetImages U p = Inr []"
    by (simp add: getStyleSheetImages_def forEachRule_unreadable [OF a] asResources_def)
  show "getFonts U p = Inr []"
    by (simp add: getFonts_def forEachRule_unreadable [OF a] asResources_def)
next
  show "getAllSubResources_dom U target
        (env\<lparr>document := (document env)\<lparr>styleSheets :=
                 filter readable (styleSheets (document env))\<rparr>\<rparr>) consumer
     = getAllSubResources_dom U target env consumer"
    unfolding getAllSubResources_dom_def dom_try_readable
    by (rule run_generator_env) simp_all
qed

theorem unreadable_sheets_skipped_witness:
  "filter readable (styleSheets sheetsPage)
     = [\<lparr>sheet_href = None,
         cssRules = Some [CSSImportRule ''b.css'', CSSStyleRule (cssUrl ''bg.png'') [],
                          CSSFontFaceRule (cssUrl ''f.woff'')]\<rparr>]
   \<and> getImportedStyleSheets exampleParser sheetsPage
       = Inr [\<lparr>type = stylesheet, url = ''http://a/b.css''\<rparr>]
   \<and> getStyleSheetImages exampleParser sheetsPage
       = Inr [\<lparr>type = image, url = ''http://a/bg.png''\<rparr>]
   \<and> getFonts exampleParser sheetsPage = Inr [\<lparr>type = font, url = ''http://a/f.woff''\<rparr>]
   \<and> getImportedStyleSheets exampleParser
        (sheetsPage\<lparr>styleSheets := [\<lparr>sheet_href = Some ''http://cdn/x.css'', cssRules = None\<rparr>]\<rparr>)
       = Inr []
   \<and> getAllSubResources_dom exampleParser ''http://a/''
        (exampleEnv (Some okResponse) [] sheetsPage) None
       = [Yield \<lparr>type = stylesheet, url = ''http://a/b.css''\<rparr>,
          Yield \<lparr>type = image, url = ''http://a/bg.png''\<rparr>,
          Yield \<lparr>type = font, url = ''http://a/f.woff''\<rparr>, Close, Return]"
proof -
  define only where "only = sheetsPage\<lparr>styleSheets := filter readable (styleSheets sheetsPage)\<rparr>"
  define cross where
    "cross = sheetsPage\<lparr>styleSheets := [\<lparr>sheet_href = Some ''http://cdn/x.css'', cssRules = None\<rparr>]\<rparr>"
  have f: "filter readable (styleSheets sheetsPage)
     = [\<lparr>sheet_href = None,
         cssRules = Some [CSSImportRule ''b.css'', CSSStyleRule (cssUrl ''bg.png'') [],
                          CSSFontFaceRule (cssUrl ''f.woff'')]\<rparr>]"
    by code_simp
  have a: "getImportedStyleSheets exampleParser only = Inr [\<lparr>type = stylesheet, url = ''http://a/b.css''\<rparr>]"
    and b: "getStyleSheetImages exampleParser only = Inr [\<lparr>type = image, url = ''http://a/bg.png''\<rparr>]"
    and c: "getFonts exampleParser only = Inr [\<lparr>type = font, url = ''http://a/f.woff''\<rparr>]"
    unfolding only_def by code_simp+
  have d: "getAllSubResources_dom exampleParser ''http://a/''
        ((exampleEnv (Some okResponse) [] sheetsPage)
           \<lparr>document := (document (exampleEnv (Some okResponse) [] sheetsPage))
              \<lparr>styleSheets := filter readable
                 (styleSheets (document (exampleEnv (Some okResponse) [] sheetsPage)))\<rparr>\<rparr>) None
       = [Yield \<lparr>type = stylesheet, url = ''http://a/b.css''\<rparr>,
          Yield \<lparr>type = image, url = ''http://a/bg.png''\<rparr>,
          Yield \<lparr>type = font, url = ''http://a/f.woff''\<rparr>, Close, Return]"
    by code_simp
  have u: "\<forall>s \<in> set (styleSheets cross). cssRules s = None"
    by (simp add: cross_def)
  note t = unreadable_sheets_skipped [of exampleParser sheetsPage "''http://a/''"
      "exampleEnv (Some okResponse) [] sheetsPage" None]
  note t' = unreadable_sheets_skipped [of exampleParser cross]
  show ?thesis
    using f a b c d u t t' unfolding only_def cross_def by simp
qed


section \<open>Candidates of a srcset\<close>

subsection \<open>Trimming\<close>







subsection \<open>The two splits\<close>



lemma splitCommaSpace_nonempty: "splitCommaSpace s \<noteq> []"
  by (induction s rule: splitCommaSpace.induct) (auto split: list.splits)








subsection \<open>The url of a candidate\<close>
















end
